theory Spec2Isabelle
  imports Main
begin

section \<open>Go values used by package daytime\<close>

text \<open>
  A Go \<^verbatim>\<open>string\<close> and a \<^verbatim>\<open>[]byte\<close> are byte sequences: both are modelled as
  \<^typ>\<open>string\<close> (a list of 8-bit characters), and the conversions \<^verbatim>\<open>string(data)\<close> and
  \<^verbatim>\<open>[]byte(s)\<close> are the identity. A Go \<^verbatim>\<open>int\<close> is modelled as \<^typ>\<open>int\<close>: the package only
  compares its integers and converts them to and from decimal text, it never does
  arithmetic on them, so no operation of the package can wrap around. The one place that
  depends on the width of \<^verbatim>\<open>int\<close> (the range check of \<^verbatim>\<open>strconv.Atoi\<close>) writes the 64-bit
  bounds out.

  A function that returns \<^verbatim>\<open>(T, error)\<close> is modelled as returning a pair whose second
  component is \<open>None\<close> for \<^verbatim>\<open>nil\<close>. A run-time panic (an index out of range) is the
  value \<open>None\<close> of an enclosing option.
\<close>

subsection \<open>Errors\<close>

text \<open>
  \<^verbatim>\<open>ErrObjIsNil\<close>, \<^verbatim>\<open>ErrInvalid\<close> and \<^verbatim>\<open>ErrUnexpected\<close> are the package's three sentinel
  errors. \<open>Wrap err msg\<close> is the value \<^verbatim>\<open>errors.Wrap(err, msg)\<close> of github.com/pkg/errors for
  a non-nil \<^verbatim>\<open>err\<close> (the package never wraps \<^verbatim>\<open>nil\<close>). \<open>NumError fn num err\<close> is
  \<^verbatim>\<open>&strconv.NumError{Func: fn, Num: num, Err: err}\<close> with \<open>ErrSyntax\<close> and \<open>ErrRange\<close> the two
  sentinels of strconv.
\<close>

datatype error =
    ErrObjIsNil
  | ErrInvalid
  | ErrUnexpected
  | ErrSyntax
  | ErrRange
  | NumError string string error
  | Wrap error string

text \<open>\<^verbatim>\<open>errors.Cause\<close>: the innermost error under the wrappers.\<close>

fun Cause :: "error \<Rightarrow> error" where
  "Cause (Wrap err msg) = Cause err"
| "Cause err = err"

subsection \<open>Decimal text: strconv.Itoa and strconv.Atoi\<close>

definition digit_char :: "nat \<Rightarrow> char" where
  "digit_char d = ''0123456789'' ! d"

definition is_digit :: "char \<Rightarrow> bool" where
  "is_digit c = (c \<in> set ''0123456789'')"

text \<open>\<^verbatim>\<open>ch - '0'\<close> for a digit byte.\<close>

definition digit_val :: "char \<Rightarrow> int" where
  "digit_val c = int (of_char c) - 48"

text \<open>The decimal digits of a natural number, most significant first.\<close>

fun utoa :: "nat \<Rightarrow> string" where
  "utoa n = (if n < 10 then [digit_char n] else utoa (n div 10) @ [digit_char (n mod 10)])"

declare utoa.simps [simp del]

text \<open>\<^verbatim>\<open>strconv.Itoa(i)\<close>, which is also what \<^verbatim>\<open>fmt.Sprintf("%d", i)\<close> prints.\<close>

definition Itoa :: "int \<Rightarrow> string" where
  "Itoa i = (if i < 0 then CHR ''-'' # utoa (nat (- i)) else utoa (nat i))"

text \<open>
  The digit loop of \<^verbatim>\<open>strconv.Atoi\<close>: \<^verbatim>\<open>n = n*10 + int(ch - '0')\<close> for each byte, and a
  syntax error (\<open>None\<close>) at the first byte that is not a digit.
\<close>

fun atoi_digits :: "int \<Rightarrow> string \<Rightarrow> int option" where
  "atoi_digits n [] = Some n"
| "atoi_digits n (ch # s) =
     (if is_digit ch then atoi_digits (n * 10 + digit_val ch) s else None)"

text \<open>
  \<^verbatim>\<open>strconv.Atoi(s)\<close> on a 64-bit platform: an optional sign, then one or more decimal
  digits; anything else is a syntax error with value 0, and a value outside the range of
  \<^verbatim>\<open>int\<close> is a range error with the nearest bound as value.
\<close>

definition Atoi :: "string \<Rightarrow> int \<times> error option" where
  "Atoi s =
     (let signed = (s \<noteq> [] \<and> (hd s = CHR ''-'' \<or> hd s = CHR ''+''));
          body = (if signed then tl s else s)
      in if body = [] then (0, Some (NumError ''Atoi'' s ErrSyntax))
         else (case atoi_digits 0 body of
                 None \<Rightarrow> (0, Some (NumError ''Atoi'' s ErrSyntax))
               | Some n \<Rightarrow>
                   (let v = (if hd s = CHR ''-'' then - n else n)
                    in if v < - (2 ^ 63) then (- (2 ^ 63), Some (NumError ''Atoi'' s ErrRange))
                       else if v > 2 ^ 63 - 1 then (2 ^ 63 - 1, Some (NumError ''Atoi'' s ErrRange))
                       else (v, None))))"

section \<open>The DayTime value\<close>

text \<open>
  \<^verbatim>\<open>type DayTime struct { hour int; minute int; second int }\<close>. A method receiver
  \<^verbatim>\<open>t *DayTime\<close> is a \<open>DayTime option\<close>: \<open>None\<close> is the \<^verbatim>\<open>nil\<close> pointer and \<open>Some d\<close> a
  pointer to a slot that holds \<open>d\<close>.
\<close>

record DayTime =
  hour :: int
  minute :: int
  second :: int

text \<open>\<^verbatim>\<open>DayTime{}\<close>, the zero value.\<close>

definition zero_DayTime :: DayTime where
  "zero_DayTime = \<lparr>hour = 0, minute = 0, second = 0\<rparr>"

definition DefaultTime :: string where
  "DefaultTime = ''00:00''"

subsection \<open>New\<close>

definition New :: "int \<Rightarrow> int \<Rightarrow> int \<Rightarrow> DayTime \<times> error option" where
  "New h m s =
     (if h < 0 \<or> h > 23 then
        (zero_DayTime, Some (Wrap ErrInvalid (''value of hour is '' @ Itoa h)))
      else if m < 0 \<or> m > 59 then
        (zero_DayTime, Some (Wrap ErrInvalid (''value of minute is '' @ Itoa m)))
      else if s < 0 \<or> s > 59 then
        (zero_DayTime, Some (Wrap ErrInvalid (''value of second is '' @ Itoa s)))
      else (\<lparr>hour = h, minute = m, second = s\<rparr>, None))"

subsection \<open>String\<close>

text \<open>The step \<^verbatim>\<open>if len(x) == 1 { x = "0" + x }\<close> that String applies to each field.\<close>

definition pad :: "string \<Rightarrow> string" where
  "pad x = (if length x = 1 then ''0'' @ x else x)"

definition String :: "DayTime option \<Rightarrow> string" where
  "String t =
     (case t of
        None \<Rightarrow> DefaultTime
      | Some d \<Rightarrow>
          (let hour' = pad (Itoa (hour d));
               minute' = pad (Itoa (minute d));
               value' = hour' @ '':'' @ minute'
           in if second d = 0 then value'
              else (let second' = pad (Itoa (second d)) in value' @ '':'' @ second')))"

subsection \<open>Text helpers of Parse: strings.Trim, strings.Split, indexing\<close>

text \<open>
  \<^verbatim>\<open>strings.Trim(s, cutset)\<close> for a cutset of ASCII bytes: the leading and the trailing
  bytes that occur in the cutset are removed.
\<close>

definition TrimLeft :: "string \<Rightarrow> string \<Rightarrow> string" where
  "TrimLeft s cutset = dropWhile (\<lambda>c. c \<in> set cutset) s"

definition TrimRight :: "string \<Rightarrow> string \<Rightarrow> string" where
  "TrimRight s cutset = rev (dropWhile (\<lambda>c. c \<in> set cutset) (rev s))"

definition Trim :: "string \<Rightarrow> string \<Rightarrow> string" where
  "Trim s cutset = TrimLeft (TrimRight s cutset) cutset"

text \<open>
  \<^verbatim>\<open>strings.Split(s, sep)\<close> for a separator of one byte: the pieces of \<open>s\<close> between the
  separators, in order; a text with n separators has n + 1 pieces.
\<close>

fun Split :: "string \<Rightarrow> char \<Rightarrow> string list" where
  "Split [] sep = [[]]"
| "Split (c # cs) sep =
     (if c = sep then [] # Split cs sep
      else (c # hd (Split cs sep)) # tl (Split cs sep))"

text \<open>\<^verbatim>\<open>xs[i]\<close>: Go panics when the index is out of range.\<close>

definition index :: "'a list \<Rightarrow> nat \<Rightarrow> 'a option" where
  "index xs i = (if i < length xs then Some (xs ! i) else None)"

subsection \<open>The regular expression of Parse\<close>

text \<open>
  The fragment of Go's regexp syntax that \<^verbatim>\<open>daytimeRegex\<close> uses: \<^verbatim>\<open>^\<close> and \<^verbatim>\<open>$\<close> (begin and
  end of the text: the expression sets no multi-line flag), \<^verbatim>\<open>\d\<close> (an ASCII digit), a
  literal byte, concatenation and \<^verbatim>\<open>{0,1}\<close>.
\<close>

datatype regexp =
    BeginText
  | EndText
  | Digit
  | Lit char
  | Cat regexp regexp
  | Repeat01 regexp

text \<open>
  A backtracking matcher. A position is the number of bytes before it together with the
  text after it; \<open>rmatch r p\<close> lists the positions at which a match of \<open>r\<close> that starts at
  \<open>p\<close> can end.
\<close>

fun rmatch :: "regexp \<Rightarrow> nat \<times> string \<Rightarrow> (nat \<times> string) list" where
  "rmatch BeginText (i, s) = (if i = 0 then [(i, s)] else [])"
| "rmatch EndText (i, s) = (if s = [] then [(i, s)] else [])"
| "rmatch Digit (i, s) =
     (case s of [] \<Rightarrow> [] | c # cs \<Rightarrow> if is_digit c then [(Suc i, cs)] else [])"
| "rmatch (Lit a) (i, s) =
     (case s of [] \<Rightarrow> [] | c # cs \<Rightarrow> if c = a then [(Suc i, cs)] else [])"
| "rmatch (Cat r1 r2) p = concat (map (rmatch r2) (rmatch r1 p))"
| "rmatch (Repeat01 r) p = rmatch r p @ [p]"

text \<open>
  Whether the expression matches somewhere in the text: a match may start at any
  position. \<^verbatim>\<open>FindAllStringSubmatch(value, -1)\<close> returns the successive matches, so its
  result has length 0 exactly when there is no match.
\<close>

definition MatchString :: "regexp \<Rightarrow> string \<Rightarrow> bool" where
  "MatchString re s = list_ex (\<lambda>i. rmatch re (i, drop i s) \<noteq> []) [0..<Suc (length s)]"

text \<open>\<^verbatim>\<open>regexp.MustCompile(`^\d\d:\d\d(:\d\d){0,1}$`)\<close>\<close>

definition daytimeRegex :: regexp where
  "daytimeRegex =
     Cat BeginText (Cat Digit (Cat Digit (Cat (Lit (CHR '':'')) (Cat Digit (Cat Digit
       (Cat (Repeat01 (Cat (Lit (CHR '':'')) (Cat Digit Digit))) EndText))))))"

subsection \<open>Parse\<close>

text \<open>
  The result is \<open>None\<close> when the function panics on \<^verbatim>\<open>values[i]\<close>, and \<open>Some\<close> of the
  returned pair otherwise. The cutset \<^verbatim>\<open>" \t"\<close> is a space and a tab (byte 9); the context
  of the first error is \<^verbatim>\<open>fmt.Sprintf("value '%s'", value)\<close>, with byte 0x27 the single
  quote. The variable \<^verbatim>\<open>err\<close> is \<^verbatim>\<open>nil\<close> when the function reaches the seconds, and stays so
  when there is no third piece.
\<close>

definition Parse :: "string \<Rightarrow> (DayTime \<times> error option) option" where
  "Parse v =
     (let value' = Trim v [CHR '' '', CHR 0x09]
      in if \<not> MatchString daytimeRegex value' then
           Some (zero_DayTime,
                 Some (Wrap ErrInvalid (''value '' @ [CHR 0x27] @ value' @ [CHR 0x27])))
         else
           (let values = Split value' (CHR '':'')
            in case index values 0 of
                 None \<Rightarrow> None
               | Some v0 \<Rightarrow>
                   (case Atoi v0 of
                      (hour', Some err) \<Rightarrow> Some (zero_DayTime, Some (Wrap err ''hour''))
                    | (hour', None) \<Rightarrow>
                        (case index values 1 of
                           None \<Rightarrow> None
                         | Some v1 \<Rightarrow>
                             (case Atoi v1 of
                                (minute', Some err) \<Rightarrow>
                                  Some (zero_DayTime, Some (Wrap err ''minute''))
                              | (minute', None) \<Rightarrow>
                                  (case (if length values > 2
                                         then map_option Atoi (index values 2)
                                         else Some (0, None)) of
                                     None \<Rightarrow> None
                                   | Some (second', Some err) \<Rightarrow>
                                       Some (zero_DayTime, Some (Wrap err ''second''))
                                   | Some (second', None) \<Rightarrow>
                                       Some (New hour' minute' second')))))))"

section \<open>Serialization adapters\<close>

text \<open>
  The value a \<^verbatim>\<open>src any\<close> can hold, as far as the type switch of Scan tells values apart:
  a \<^verbatim>\<open>[]byte\<close>, a \<^verbatim>\<open>string\<close>, or a value of any other dynamic type (\<^verbatim>\<open>nil\<close> included),
  of which only the text that \<^verbatim>\<open>%T\<close> prints for it is used.
\<close>

datatype any = Bytes string | Str string | Other string

subsection \<open>Encoders\<close>

definition MarshalBinary :: "DayTime option \<Rightarrow> string \<times> error option" where
  "MarshalBinary t = (String t, None)"

definition MarshalText :: "DayTime option \<Rightarrow> string \<times> error option" where
  "MarshalText t = (String t, None)"

definition MarshalJSON :: "DayTime option \<Rightarrow> string \<times> error option" where
  "MarshalJSON t = (String t, None)"

definition MarshalCSV :: "DayTime option \<Rightarrow> string \<times> error option" where
  "MarshalCSV t = (String t, None)"

text \<open>\<^verbatim>\<open>Value\<close> returns a \<^verbatim>\<open>driver.Value\<close>, an interface value that holds the string.\<close>

definition Value :: "DayTime option \<Rightarrow> any \<times> error option" where
  "Value t = (Str (String t), None)"

subsection \<open>Decoders\<close>

text \<open>
  A decoder writes through its receiver. It is modelled as a function from the receiver
  before the call to the receiver after the call and the returned error; a \<^verbatim>\<open>nil\<close>
  receiver stays \<^verbatim>\<open>nil\<close>. The outer \<open>None\<close> is a panic of Parse.
\<close>

definition UnmarshalBinary :: "DayTime option \<Rightarrow> string \<Rightarrow> (DayTime option \<times> error option) option" where
  "UnmarshalBinary t data =
     (case t of
        None \<Rightarrow> Some (None, Some ErrObjIsNil)
      | Some d \<Rightarrow>
          (case Parse data of
             None \<Rightarrow> None
           | Some (value', Some err) \<Rightarrow> Some (Some d, Some (Wrap err ''parse''))
           | Some (value', None) \<Rightarrow> Some (Some value', None)))"

definition UnmarshalText :: "DayTime option \<Rightarrow> string \<Rightarrow> (DayTime option \<times> error option) option" where
  "UnmarshalText t data =
     (case t of
        None \<Rightarrow> Some (None, Some ErrObjIsNil)
      | Some d \<Rightarrow>
          (case Parse data of
             None \<Rightarrow> None
           | Some (value', Some err) \<Rightarrow> Some (Some d, Some (Wrap err ''parse''))
           | Some (value', None) \<Rightarrow> Some (Some value', None)))"

definition UnmarshalJSON :: "DayTime option \<Rightarrow> string \<Rightarrow> (DayTime option \<times> error option) option" where
  "UnmarshalJSON t data =
     (case t of
        None \<Rightarrow> Some (None, Some ErrObjIsNil)
      | Some d \<Rightarrow>
          (case Parse data of
             None \<Rightarrow> None
           | Some (value', Some err) \<Rightarrow> Some (Some d, Some (Wrap err ''parse''))
           | Some (value', None) \<Rightarrow> Some (Some value', None)))"

definition UnmarshalCSV :: "DayTime option \<Rightarrow> string \<Rightarrow> (DayTime option \<times> error option) option" where
  "UnmarshalCSV t str =
     (case t of
        None \<Rightarrow> Some (None, Some ErrObjIsNil)
      | Some d \<Rightarrow>
          (case Parse str of
             None \<Rightarrow> None
           | Some (value', Some err) \<Rightarrow> Some (Some d, Some (Wrap err ''parse''))
           | Some (value', None) \<Rightarrow> Some (Some value', None)))"

text \<open>
  Scan also prints a line to the standard output when the source is a \<^verbatim>\<open>[]byte\<close>
  (\<^verbatim>\<open>fmt.Printf("str(bytes) = '%s'\n", str)\<close>); its result is the outcome of the call and
  the text printed.
\<close>

definition Scan :: "DayTime option \<Rightarrow> any \<Rightarrow> (DayTime option \<times> error option) option \<times> string" where
  "Scan t src =
     (case t of
        None \<Rightarrow> (Some (None, Some ErrObjIsNil), [])
      | Some d \<Rightarrow>
          (case (case src of
                   Bytes b \<Rightarrow> Inr (b, ''str(bytes) = '' @ [CHR 0x27] @ b @ [CHR 0x27, CHR 0x0A])
                 | Str s \<Rightarrow> Inr (s, [])
                 | Other ty \<Rightarrow>
                     Inl (Wrap ErrUnexpected (''type of value '' @ [CHR 0x27] @ ty @ [CHR 0x27]))) of
             Inl err \<Rightarrow> (Some (Some d, Some err), [])
           | Inr (str, out) \<Rightarrow>
               (case Parse str of
                  None \<Rightarrow> (None, out)
                | Some (value', Some err) \<Rightarrow> (Some (Some d, Some (Wrap err ''parse'')), out)
                | Some (value', None) \<Rightarrow> (Some (Some value', None), out))))"

section \<open>Anchoring to the current day\<close>

subsection \<open>Package time\<close>

text \<open>
  A \<^verbatim>\<open>time.Time\<close> is an instant and a location. The instant is the number of nanoseconds
  since the Unix epoch, as an unbounded integer (the limits of the representable range
  are left out). The location is one with a fixed offset, in seconds east of UTC: changes
  of the offset within a location (daylight saving) are left out. \<^verbatim>\<open>Before\<close> and \<^verbatim>\<open>After\<close>
  compare instants and \<^verbatim>\<open>Add\<close> moves the instant, whatever the location.
\<close>

record time_Time =
  unix_nano :: int
  zone :: int

definition Hour :: int where
  "Hour = 3600 * 1000000000"

definition Day :: int where
  "Day = 24 * Hour"

definition Before :: "time_Time \<Rightarrow> time_Time \<Rightarrow> bool" where
  "Before t u = (unix_nano t < unix_nano u)"

definition After :: "time_Time \<Rightarrow> time_Time \<Rightarrow> bool" where
  "After t u = (unix_nano t > unix_nano u)"

definition Add :: "time_Time \<Rightarrow> int \<Rightarrow> time_Time" where
  "Add t d = t\<lparr>unix_nano := unix_nano t + d\<rparr>"

definition Location :: "time_Time \<Rightarrow> int" where
  "Location t = zone t"

text \<open>
  The proleptic Gregorian calendar: the number of days from 1970-01-01 to the day
  \<open>d\<close> of month \<open>m\<close> (1 to 12) of year \<open>y\<close>, and the year, month and day of a day number.
  Years are counted from March, in eras of 400 years (146097 days).
\<close>

definition days_from_civil :: "int \<Rightarrow> int \<Rightarrow> int \<Rightarrow> int" where
  "days_from_civil y m d =
     (let y' = (if m \<le> 2 then y - 1 else y);
          era = y' div 400;
          yoe = y' - era * 400;
          doy = (153 * (if m > 2 then m - 3 else m + 9) + 2) div 5 + d - 1;
          doe = yoe * 365 + yoe div 4 - yoe div 100 + doy
      in era * 146097 + doe - 719468)"

definition civil_from_days :: "int \<Rightarrow> int \<times> int \<times> int" where
  "civil_from_days z =
     (let z' = z + 719468;
          era = z' div 146097;
          doe = z' - era * 146097;
          yoe = (doe - doe div 1460 + doe div 36524 - doe div 146096) div 365;
          doy = doe - (365 * yoe + yoe div 4 - yoe div 100);
          mp = (5 * doy + 2) div 153;
          d = doy - (153 * mp + 2) div 5 + 1;
          m = (if mp < 10 then mp + 3 else mp - 9)
      in (yoe + era * 400 + (if m \<le> 2 then 1 else 0), m, d))"

text \<open>\<^verbatim>\<open>t.Date()\<close>: the year, month and day of the instant in the time's location.\<close>

definition Date_of :: "time_Time \<Rightarrow> int \<times> int \<times> int" where
  "Date_of t = civil_from_days ((unix_nano t div 1000000000 + zone t) div 86400)"

text \<open>
  \<^verbatim>\<open>time.Date(year, month, day, hour, min, sec, nsec, loc)\<close>. Values outside their usual
  ranges are carried over, as Go does: a month outside 1 to 12 moves the year, and the
  day, hour, minute, second and nanosecond are added up.
\<close>

definition Date :: "int \<Rightarrow> int \<Rightarrow> int \<Rightarrow> int \<Rightarrow> int \<Rightarrow> int \<Rightarrow> int \<Rightarrow> int \<Rightarrow> time_Time" where
  "Date year month day hour' min' sec nsec loc =
     (let y = year + (month - 1) div 12;
          m = (month - 1) mod 12 + 1;
          secs = days_from_civil y m day * 86400 + hour' * 3600 + min' * 60 + sec - loc
      in \<lparr>unix_nano = secs * 1000000000 + nsec, zone = loc\<rparr>)"

text \<open>
  The ambient clock. \<open>clk k\<close> is what the \<open>k\<close>-th call of \<^verbatim>\<open>time.Now()\<close> returns (counting
  from 0), and the state threaded through the methods is the number of calls made so far.
\<close>

type_synonym clock = "nat \<Rightarrow> time_Time"

definition Now :: "clock \<Rightarrow> nat \<Rightarrow> time_Time \<times> nat" where
  "Now clk n = (clk n, Suc n)"

subsection \<open>Time, InTheNearFuture, InTheRecentPast\<close>

definition Time :: "DayTime option \<Rightarrow> clock \<Rightarrow> nat \<Rightarrow> time_Time \<times> nat" where
  "Time t clk n =
     (let (now, n1) = Now clk n;
          (year, month, day) = Date_of now;
          (hour', minute', second') =
             (case t of None \<Rightarrow> (0, 0, 0) | Some d \<Rightarrow> (hour d, minute d, second d))
      in (Date year month day hour' minute' second' 0 (Location now), n1))"

definition InTheNearFuture :: "DayTime option \<Rightarrow> clock \<Rightarrow> nat \<Rightarrow> time_Time \<times> nat" where
  "InTheNearFuture t clk n =
     (let (now, n1) = Now clk n;
          (datetime, n2) = Time t clk n1
      in (if Before datetime now then Add datetime Day else datetime, n2))"

definition InTheRecentPast :: "DayTime option \<Rightarrow> clock \<Rightarrow> nat \<Rightarrow> time_Time \<times> nat" where
  "InTheRecentPast t clk n =
     (let (now, n1) = Now clk n;
          (datetime, n2) = Time t clk n1
      in (if After datetime now then Add datetime (- Day) else datetime, n2))"

section \<open>Vocabulary of the specification\<close>

text \<open>
  The invariant of the data model: an hour from 0 to 23, a minute and a second from 0 to
  59.
\<close>

definition valid_DayTime :: "DayTime \<Rightarrow> bool" where
  "valid_DayTime d =
     (0 \<le> hour d \<and> hour d \<le> 23 \<and> 0 \<le> minute d \<and> minute d \<le> 59 \<and> 0 \<le> second d \<and> second d \<le> 59)"

text \<open>A number from 0 to 99, zero-padded to two decimal digits.\<close>

definition two_digits :: "int \<Rightarrow> string" where
  "two_digits i = [digit_char (nat (i div 10)), digit_char (nat (i mod 10))]"

text \<open>
  The shape \<^verbatim>\<open>HH:MM\<close> or \<^verbatim>\<open>HH:MM:SS\<close>: two digits, a colon, two digits, and optionally a
  colon and two digits more; nothing before and nothing after.
\<close>

definition hhmm_shape :: "string \<Rightarrow> bool" where
  "hhmm_shape s =
     ((length s = 5 \<or> length s = 8) \<and>
      is_digit (s ! 0) \<and> is_digit (s ! 1) \<and> s ! 2 = CHR '':'' \<and>
      is_digit (s ! 3) \<and> is_digit (s ! 4) \<and>
      (length s = 8 \<longrightarrow> s ! 5 = CHR '':'' \<and> is_digit (s ! 6) \<and> is_digit (s ! 7)))"

text \<open>The number that the two digits at positions \<open>k\<close> and \<open>k + 1\<close> of a text denote.\<close>

definition field :: "string \<Rightarrow> nat \<Rightarrow> int" where
  "field s k = digit_val (s ! k) * 10 + digit_val (s ! Suc k)"

section \<open>Sample clocks\<close>

text \<open>
  Instants and clocks on which the anchoring methods are evaluated. A steady clock returns
  2024-01-01 23:59:58.5 UTC at every reading. The midnight clock returns that instant at
  its first reading and 2024-01-02 00:00:00.1 UTC from then on: midnight passes between
  two readings. The exact clock always returns 2024-01-01 01:02:03 UTC with no fraction of
  a second, and the shifted clock is the midnight clock five readings later.
\<close>

definition late_evening :: time_Time where
  "late_evening = Date 2024 1 1 23 59 58 500000000 0"

definition past_midnight :: time_Time where
  "past_midnight = Date 2024 1 2 0 0 0 100000000 0"

definition clock_steady :: clock where
  "clock_steady k = late_evening"

definition clock_midnight :: clock where
  "clock_midnight k = (if k = 0 then late_evening else past_midnight)"

definition exact_moment :: time_Time where
  "exact_moment = Date 2024 1 1 1 2 3 0 0"

definition clock_exact :: clock where
  "clock_exact k = exact_moment"

definition clock_shifted :: clock where
  "clock_shifted k = clock_midnight (k - 5)"

section \<open>Facts about the helpers\<close>

lemma lt10_cases: "d < 10 \<Longrightarrow> d \<in> {0, 1, 2, 3, 4, 5, 6, 7, 8, 9::nat}"
  by auto

lemma is_digit_digit_char: "d < 10 \<Longrightarrow> is_digit (digit_char d)"
  by (drule lt10_cases) (auto simp: is_digit_def digit_char_def)

lemma digit_val_digit_char: "d < 10 \<Longrightarrow> digit_val (digit_char d) = int d"
  by (drule lt10_cases) (auto simp: digit_val_def digit_char_def)

lemma is_digit_not_sep:
  "is_digit c \<Longrightarrow> c \<noteq> CHR '':'' \<and> c \<noteq> CHR ''-'' \<and> c \<noteq> CHR ''+'' \<and> c \<noteq> CHR '' '' \<and> c \<noteq> CHR 0x09"
  by (auto simp: is_digit_def)

lemma digit_val_range: "is_digit c \<Longrightarrow> 0 \<le> digit_val c \<and> digit_val c \<le> 9"
  by (auto simp: is_digit_def digit_val_def)

lemma utoa_lt10: "n < 10 \<Longrightarrow> utoa n = [digit_char n]"
  by (simp add: utoa.simps)

lemma utoa_lt100:
  "10 \<le> n \<Longrightarrow> n < 100 \<Longrightarrow> utoa n = [digit_char (n div 10), digit_char (n mod 10)]"
  by (subst utoa.simps) (simp add: utoa_lt10)

lemma Atoi_two_digits:
  "is_digit a \<Longrightarrow> is_digit b \<Longrightarrow> Atoi [a, b] = (digit_val a * 10 + digit_val b, None)"
  using is_digit_not_sep[of a] digit_val_range[of a] digit_val_range[of b]
  by (simp add: Atoi_def)

lemma pad_Itoa: "0 \<le> i \<Longrightarrow> i < 100 \<Longrightarrow> pad (Itoa i) = two_digits i"
proof -
  assume a: "0 \<le> i" "i < 100"
  show ?thesis
  proof (cases "i < 10")
    case True
    with a have "utoa (nat i) = [digit_char (nat i)]" by (simp add: utoa_lt10)
    moreover from True a have "i div 10 = 0" "i mod 10 = i" by simp_all
    ultimately show ?thesis using a by (simp add: pad_def Itoa_def two_digits_def digit_char_def)
  next
    case False
    with a have "utoa (nat i) = [digit_char (nat i div 10), digit_char (nat i mod 10)]"
      by (simp add: utoa_lt100)
    moreover from a have "nat i div 10 = nat (i div 10)" "nat i mod 10 = nat (i mod 10)"
      by (simp_all add: nat_div_distrib nat_mod_distrib)
    ultimately show ?thesis using a by (simp add: pad_def Itoa_def two_digits_def)
  qed
qed

subsection \<open>The regular expression accepts exactly the two shapes\<close>

lemma rmatch_daytimeRegex_pos: "i \<noteq> 0 \<Longrightarrow> rmatch daytimeRegex (i, s) = []"
  by (simp add: daytimeRegex_def)

lemma MatchString_daytimeRegex:
  "MatchString daytimeRegex s \<longleftrightarrow> rmatch daytimeRegex (0, s) \<noteq> []"
proof
  assume "MatchString daytimeRegex s"
  then obtain i where i: "rmatch daytimeRegex (i, drop i s) \<noteq> []"
    unfolding MatchString_def list_ex_iff by blast
  then have "i = 0" using rmatch_daytimeRegex_pos by blast
  with i show "rmatch daytimeRegex (0, s) \<noteq> []" by simp
next
  assume "rmatch daytimeRegex (0, s) \<noteq> []"
  then have "\<exists>i \<in> set [0..<Suc (length s)]. rmatch daytimeRegex (i, drop i s) \<noteq> []"
    by (intro bexI[of _ 0]) simp_all
  then show "MatchString daytimeRegex s"
    unfolding MatchString_def list_ex_iff .
qed

lemma length5: "length s = 5 \<Longrightarrow> \<exists>a b c d e. s = [a, b, c, d, e]"
  by (auto simp: length_Suc_conv eval_nat_numeral)

lemma length8: "length s = 8 \<Longrightarrow> \<exists>a b c d e f g h. s = [a, b, c, d, e, f, g, h]"
  by (auto simp: length_Suc_conv eval_nat_numeral)

lemma hhmm_shape_iff:
  "hhmm_shape s \<longleftrightarrow>
     (\<exists>a b c d. s = [a, b, CHR '':'', c, d] \<and> is_digit a \<and> is_digit b \<and> is_digit c \<and> is_digit d) \<or>
     (\<exists>a b c d e f. s = [a, b, CHR '':'', c, d, CHR '':'', e, f] \<and>
        is_digit a \<and> is_digit b \<and> is_digit c \<and> is_digit d \<and> is_digit e \<and> is_digit f)"
  (is "?L \<longleftrightarrow> ?A \<or> ?B")
proof
  assume L: ?L
  then consider "length s = 5" | "length s = 8" by (auto simp: hhmm_shape_def)
  then show "?A \<or> ?B"
  proof cases
    case 1
    then obtain a b c d e where "s = [a, b, c, d, e]" using length5 by blast
    with L show ?thesis by (simp add: hhmm_shape_def)
  next
    case 2
    then obtain a b c d e f g h where "s = [a, b, c, d, e, f, g, h]" using length8 by blast
    with L show ?thesis by (simp add: hhmm_shape_def)
  qed
next
  assume "?A \<or> ?B"
  then show ?L by (auto simp: hhmm_shape_def)
qed

lemma rmatch_short:
  "is_digit a \<Longrightarrow> is_digit b \<Longrightarrow> is_digit c \<Longrightarrow> is_digit d \<Longrightarrow>
   rmatch daytimeRegex (0, [a, b, CHR '':'', c, d]) = [(5, [])]"
  by (simp add: daytimeRegex_def)

lemma rmatch_long:
  "is_digit a \<Longrightarrow> is_digit b \<Longrightarrow> is_digit c \<Longrightarrow> is_digit d \<Longrightarrow> is_digit e \<Longrightarrow> is_digit f \<Longrightarrow>
   rmatch daytimeRegex (0, [a, b, CHR '':'', c, d, CHR '':'', e, f]) = [(8, [])]"
  by (simp add: daytimeRegex_def)

lemma rmatch_daytimeRegex_shape: "rmatch daytimeRegex (0, s) \<noteq> [] \<longleftrightarrow> hhmm_shape s"
proof
  assume "rmatch daytimeRegex (0, s) \<noteq> []"
  then show "hhmm_shape s"
    by (auto simp: daytimeRegex_def hhmm_shape_def split: list.splits if_splits)
next
  assume "hhmm_shape s"
  then show "rmatch daytimeRegex (0, s) \<noteq> []"
    unfolding hhmm_shape_iff using rmatch_short rmatch_long by fastforce
qed

lemma MatchString_shape: "MatchString daytimeRegex s \<longleftrightarrow> hhmm_shape s"
  by (simp add: MatchString_daytimeRegex rmatch_daytimeRegex_shape)

lemma Split_short:
  "is_digit a \<Longrightarrow> is_digit b \<Longrightarrow> is_digit c \<Longrightarrow> is_digit d \<Longrightarrow>
   Split [a, b, CHR '':'', c, d] (CHR '':'') = [[a, b], [c, d]]"
  by (simp add: is_digit_not_sep)

lemma Split_long:
  "is_digit a \<Longrightarrow> is_digit b \<Longrightarrow> is_digit c \<Longrightarrow> is_digit d \<Longrightarrow> is_digit e \<Longrightarrow> is_digit f \<Longrightarrow>
   Split [a, b, CHR '':'', c, d, CHR '':'', e, f] (CHR '':'') = [[a, b], [c, d], [e, f]]"
  by (simp add: is_digit_not_sep)

subsection \<open>Parse in closed form\<close>

lemma Parse_closed_form:
  "Parse v =
     (let w = Trim v [CHR '' '', CHR 0x09]
      in if hhmm_shape w
         then Some (New (field w 0) (field w 3) (if length w = 8 then field w 6 else 0))
         else Some (zero_DayTime,
                    Some (Wrap ErrInvalid (''value '' @ [CHR 0x27] @ w @ [CHR 0x27]))))"
proof -
  define w where "w = Trim v [CHR '' '', CHR 0x09]"
  show ?thesis
  proof (cases "hhmm_shape w")
    case False
    then show ?thesis
      by (simp add: Parse_def w_def[symmetric] MatchString_shape)
  next
    case True
    then consider
      (short) a b c d where "w = [a, b, CHR '':'', c, d]"
        "is_digit a" "is_digit b" "is_digit c" "is_digit d"
    | (long) a b c d e f where "w = [a, b, CHR '':'', c, d, CHR '':'', e, f]"
        "is_digit a" "is_digit b" "is_digit c" "is_digit d" "is_digit e" "is_digit f"
      unfolding hhmm_shape_iff by blast
    then show ?thesis
    proof cases
      case short
      have sp: "Split w (CHR '':'') = [[a, b], [c, d]]"
        unfolding short(1) using short(2-) by (rule Split_short)
      have at: "Atoi [a, b] = (field w 0, None)" "Atoi [c, d] = (field w 3, None)"
        using short by (simp_all add: Atoi_two_digits field_def)
      have len: "length w = 5" by (simp add: short(1))
      show ?thesis
        unfolding Parse_def w_def[symmetric] Let_def
        using True by (simp add: MatchString_shape sp at len index_def)
    next
      case long
      have sp: "Split w (CHR '':'') = [[a, b], [c, d], [e, f]]"
        unfolding long(1) using long(2-) by (rule Split_long)
      have at: "Atoi [a, b] = (field w 0, None)" "Atoi [c, d] = (field w 3, None)"
        "Atoi [e, f] = (field w 6, None)"
        using long by (simp_all add: Atoi_two_digits field_def)
      have len: "length w = 8" by (simp add: long(1))
      show ?thesis
        unfolding Parse_def w_def[symmetric] Let_def
        using True by (simp add: MatchString_shape sp at len index_def)
    qed
  qed
qed

lemma Parse_total: "\<exists>d err. Parse v = Some (d, err)"
  by (cases "New (field (Trim v [CHR '' '', CHR 0x09]) 0) (field (Trim v [CHR '' '', CHR 0x09]) 3)
        (if length (Trim v [CHR '' '', CHR 0x09]) = 8 then field (Trim v [CHR '' '', CHR 0x09]) 6 else 0)")
     (simp add: Parse_closed_form Let_def)

subsection \<open>Trim removes the cutset from both ends and nothing else\<close>

lemma TrimRight_decomp:
  "\<exists>r. s = TrimRight s cutset @ r \<and> set r \<subseteq> set cutset"
proof -
  let ?P = "\<lambda>c. c \<in> set cutset"
  have "rev s = takeWhile ?P (rev s) @ dropWhile ?P (rev s)" by simp
  then have "s = rev (dropWhile ?P (rev s)) @ rev (takeWhile ?P (rev s))"
    by (metis rev_append rev_rev_ident)
  moreover have "set (rev (takeWhile ?P (rev s))) \<subseteq> set cutset"
    by (auto dest: set_takeWhileD)
  ultimately show ?thesis unfolding TrimRight_def by blast
qed

lemma TrimLeft_decomp:
  "\<exists>l. s = l @ TrimLeft s cutset \<and> set l \<subseteq> set cutset"
proof -
  let ?P = "\<lambda>c. c \<in> set cutset"
  have "s = takeWhile ?P s @ dropWhile ?P s" by simp
  moreover have "set (takeWhile ?P s) \<subseteq> set cutset"
    by (auto dest: set_takeWhileD)
  ultimately show ?thesis unfolding TrimLeft_def by blast
qed

lemma Trim_decomp:
  "\<exists>l r. s = l @ Trim s cutset @ r \<and> set l \<subseteq> set cutset \<and> set r \<subseteq> set cutset"
proof -
  obtain r where r: "s = TrimRight s cutset @ r" "set r \<subseteq> set cutset"
    using TrimRight_decomp by blast
  obtain l where l: "TrimRight s cutset = l @ TrimLeft (TrimRight s cutset) cutset"
    "set l \<subseteq> set cutset"
    using TrimLeft_decomp by blast
  have "s = l @ Trim s cutset @ r"
    using r(1) l(1) by (simp add: Trim_def) (metis append_assoc)
  with r(2) l(2) show ?thesis by blast
qed

lemma TrimRight_last:
  assumes "TrimRight s cutset \<noteq> []"
  shows "last (TrimRight s cutset) \<notin> set cutset"
proof -
  let ?d = "dropWhile (\<lambda>c. c \<in> set cutset) (rev s)"
  from assms have ne: "?d \<noteq> []" by (simp only: TrimRight_def rev_is_Nil_conv not_False_eq_True)
  then have "\<not> (hd ?d \<in> set cutset)" by (rule hd_dropWhile)
  moreover have "last (rev ?d) = hd ?d" using ne by (simp only: last_rev)
  ultimately show ?thesis unfolding TrimRight_def by simp
qed

lemma Trim_ends:
  assumes "Trim s cutset \<noteq> []"
  shows "hd (Trim s cutset) \<notin> set cutset \<and> last (Trim s cutset) \<notin> set cutset"
proof
  show "hd (Trim s cutset) \<notin> set cutset"
    using assms unfolding Trim_def TrimLeft_def by (metis (mono_tags, lifting) hd_dropWhile)
next
  let ?t = "TrimRight s cutset"
  obtain l where l: "?t = l @ Trim s cutset"
    using TrimLeft_decomp[of ?t cutset] by (auto simp: Trim_def)
  with assms have "last ?t = last (Trim s cutset)" "?t \<noteq> []" by auto
  then show "last (Trim s cutset) \<notin> set cutset"
    using TrimRight_last[of s cutset] by simp
qed

lemma Trim_id:
  "s \<noteq> [] \<Longrightarrow> hd s \<notin> set cutset \<Longrightarrow> last s \<notin> set cutset \<Longrightarrow> Trim s cutset = s"
proof -
  assume a: "s \<noteq> []" "hd s \<notin> set cutset" "last s \<notin> set cutset"
  from a(1,3) have "dropWhile (\<lambda>c. c \<in> set cutset) (rev s) = rev s"
    by (cases "rev s") (auto simp: last_rev[symmetric] hd_rev)
  then have "TrimRight s cutset = s" by (simp add: TrimRight_def)
  moreover from a(1,2) have "TrimLeft s cutset = s"
    by (cases s) (auto simp: TrimLeft_def)
  ultimately show ?thesis by (simp add: Trim_def)
qed

subsection \<open>Texts of the two shapes: rendering and parsing\<close>

lemma two_digits_props:
  assumes "0 \<le> i" "i < 100"
  shows "\<exists>a b. two_digits i = [a, b] \<and> is_digit a \<and> is_digit b \<and> digit_val a * 10 + digit_val b = i"
proof -
  from assms have nn: "0 \<le> i div 10" "0 \<le> i mod 10" by simp_all
  from assms have lt: "nat (i div 10) < 10" "nat (i mod 10) < 10" by auto
  have "int (nat (i div 10)) * 10 + int (nat (i mod 10)) = i"
    using nn by simp
  then have "digit_val (digit_char (nat (i div 10))) * 10 + digit_val (digit_char (nat (i mod 10))) = i"
    using lt by (simp only: digit_val_digit_char)
  with lt show ?thesis
    by (simp add: two_digits_def is_digit_digit_char)
qed

lemma Parse_short:
  assumes "is_digit a" "is_digit b" "is_digit c" "is_digit d"
  shows "Parse [a, b, CHR '':'', c, d] =
           Some (New (digit_val a * 10 + digit_val b) (digit_val c * 10 + digit_val d) 0)"
proof -
  let ?x = "[a, b, CHR '':'', c, d]"
  have "Trim ?x [CHR '' '', CHR 0x09] = ?x"
    using is_digit_not_sep[OF assms(1)] is_digit_not_sep[OF assms(4)] by (intro Trim_id) simp_all
  moreover have "hhmm_shape ?x" unfolding hhmm_shape_iff using assms by blast
  ultimately show ?thesis
    by (simp add: Parse_closed_form field_def)
qed

lemma Parse_long:
  assumes "is_digit a" "is_digit b" "is_digit c" "is_digit d" "is_digit e" "is_digit f"
  shows "Parse [a, b, CHR '':'', c, d, CHR '':'', e, f] =
           Some (New (digit_val a * 10 + digit_val b) (digit_val c * 10 + digit_val d)
                     (digit_val e * 10 + digit_val f))"
proof -
  let ?x = "[a, b, CHR '':'', c, d, CHR '':'', e, f]"
  have "Trim ?x [CHR '' '', CHR 0x09] = ?x"
    using is_digit_not_sep[OF assms(1)] is_digit_not_sep[OF assms(6)] by (intro Trim_id) simp_all
  moreover have "hhmm_shape ?x" unfolding hhmm_shape_iff using assms by blast
  ultimately show ?thesis
    by (simp add: Parse_closed_form field_def)
qed

lemma String_valid:
  assumes "valid_DayTime d"
  shows "String (Some d) =
          two_digits (hour d) @ '':'' @ two_digits (minute d) @
          (if second d = 0 then [] else '':'' @ two_digits (second d))"
proof -
  from assms have "pad (Itoa (hour d)) = two_digits (hour d)"
    "pad (Itoa (minute d)) = two_digits (minute d)"
    "pad (Itoa (second d)) = two_digits (second d)"
    by (simp_all add: valid_DayTime_def pad_Itoa)
  then show ?thesis by (simp add: String_def Let_def)
qed

lemma Parse_good_example:
  "Parse ''01:02:03'' = Some (\<lparr>hour = 1, minute = 2, second = 3\<rparr>, None)"
proof -
  have "Parse ''01:02:03'' = Some (New (digit_val CHR ''0'' * 10 + digit_val CHR ''1'')
      (digit_val CHR ''0'' * 10 + digit_val CHR ''2'') (digit_val CHR ''0'' * 10 + digit_val CHR ''3''))"
    by (rule Parse_long) (simp_all add: is_digit_def)
  then show ?thesis by (simp add: digit_val_def New_def)
qed

lemma Parse_bad_example:
  "Parse ''24:02:03'' = Some (zero_DayTime, Some (Wrap ErrInvalid ''value of hour is 24''))"
proof -
  have "Parse ''24:02:03'' = Some (New (digit_val CHR ''2'' * 10 + digit_val CHR ''4'')
      (digit_val CHR ''0'' * 10 + digit_val CHR ''2'') (digit_val CHR ''0'' * 10 + digit_val CHR ''3''))"
    by (rule Parse_long) (simp_all add: is_digit_def)
  then show ?thesis by (simp add: digit_val_def New_def Itoa_def utoa_lt100 digit_char_def)
qed

subsection \<open>The clock and the anchoring methods\<close>

lemma late_evening_eval: "late_evening = \<lparr>unix_nano = 1704153598500000000, zone = 0\<rparr>"
  unfolding late_evening_def Date_def days_from_civil_def Let_def by simp

lemma past_midnight_eval: "past_midnight = \<lparr>unix_nano = 1704153600100000000, zone = 0\<rparr>"
  unfolding past_midnight_def Date_def days_from_civil_def Let_def by simp

lemma Date_of_late_evening: "Date_of late_evening = (2024, 1, 1)"
  unfolding late_evening_eval Date_of_def civil_from_days_def Let_def by simp

lemma Date_of_past_midnight: "Date_of past_midnight = (2024, 1, 2)"
  unfolding past_midnight_eval Date_of_def civil_from_days_def Let_def by simp

lemma Time_eq:
  "Time t clk n =
     (case Date_of (clk n) of (year, month, day) \<Rightarrow>
        (case t of None \<Rightarrow> Date year month day 0 0 0 0 (zone (clk n))
                 | Some d \<Rightarrow> Date year month day (hour d) (minute d) (second d) 0 (zone (clk n))),
      Suc n)"
  by (simp add: Time_def Now_def Location_def Let_def split: prod.splits option.splits)

lemma Time_steady_eval:
  "fst (Time (Some \<lparr>hour = 23, minute = 59, second = 59\<rparr>) clock_steady (Suc 0)) =
     \<lparr>unix_nano = 1704153599000000000, zone = 0\<rparr>"
  unfolding Time_eq clock_steady_def Date_of_late_evening
  unfolding late_evening_eval Date_def days_from_civil_def Let_def by simp

lemma Time_midnight_eval:
  "fst (Time (Some \<lparr>hour = 23, minute = 59, second = 59\<rparr>) clock_midnight (Suc 0)) =
     \<lparr>unix_nano = 1704239999000000000, zone = 0\<rparr>"
  unfolding Time_eq clock_midnight_def
  by (simp add: Date_of_past_midnight) (simp add: past_midnight_eval Date_def days_from_civil_def Let_def)


lemma snd_Time: "snd (Time t clk n) = Suc n"
  by (simp add: Time_eq)

lemma InTheNearFuture_eq:
  "InTheNearFuture t clk n =
     (if Before (fst (Time t clk (Suc n))) (clk n) then Add (fst (Time t clk (Suc n))) Day
      else fst (Time t clk (Suc n)), Suc (Suc n))"
  using snd_Time[of t clk "Suc n"]
  by (cases "Time t clk (Suc n)") (simp add: InTheNearFuture_def Now_def)

lemma InTheRecentPast_eq:
  "InTheRecentPast t clk n =
     (if After (fst (Time t clk (Suc n))) (clk n) then Add (fst (Time t clk (Suc n))) (- Day)
      else fst (Time t clk (Suc n)), Suc (Suc n))"
  using snd_Time[of t clk "Suc n"]
  by (cases "Time t clk (Suc n)") (simp add: InTheRecentPast_def Now_def)

lemma Day_eval: "Day = 86400000000000"
  by (simp add: Day_def Hour_def)

lemma fst_Time_cong: "clk n = clk' n' \<Longrightarrow> fst (Time t clk n) = fst (Time t clk' n')"
  by (simp add: Time_eq split: prod.splits option.splits)

lemma zone_Date: "zone (Date y m d h mi s ns loc) = loc"
  by (simp add: Date_def Let_def)

lemma exact_moment_eval: "exact_moment = \<lparr>unix_nano = 1704070923000000000, zone = 0\<rparr>"
  unfolding exact_moment_def Date_def days_from_civil_def Let_def by simp

lemma Date_of_exact_moment: "Date_of exact_moment = (2024, 1, 1)"
  unfolding exact_moment_eval Date_of_def civil_from_days_def Let_def by simp

lemma Time_exact_eval:
  "fst (Time (Some \<lparr>hour = 1, minute = 2, second = 3\<rparr>) clock_exact k) = exact_moment"
  unfolding Time_eq clock_exact_def Date_of_exact_moment
  by (simp add: exact_moment_def zone_Date)

section \<open>The claims\<close>

subsection \<open>Construction\<close>

text \<open>
  Claim C4. New succeeds, with exactly the triple it was given, if and only if the hour
  is from 0 to 23 and the minute and the second are from 0 to 59. Otherwise it returns
  the zero triple and an error that wraps \<open>ErrInvalid\<close>; the message names the hour when the
  hour is out of range, else the minute when the minute is, else the second, so only the
  first field that fails is reported.
\<close>

theorem New_spec:
  "New h m s =
     (if 0 \<le> h \<and> h \<le> 23 \<and> 0 \<le> m \<and> m \<le> 59 \<and> 0 \<le> s \<and> s \<le> 59
      then (\<lparr>hour = h, minute = m, second = s\<rparr>, None)
      else (zero_DayTime,
            Some (Wrap ErrInvalid
              (if h < 0 \<or> 23 < h then ''value of hour is '' @ Itoa h
               else if m < 0 \<or> 59 < m then ''value of minute is '' @ Itoa m
               else ''value of second is '' @ Itoa s))))
   \<and> (snd (New h m s) = None) = (0 \<le> h \<and> h \<le> 23 \<and> 0 \<le> m \<and> m \<le> 59 \<and> 0 \<le> s \<and> s \<le> 59)
   \<and> (snd (New h m s) = None \<or> (\<exists>msg. snd (New h m s) = Some (Wrap ErrInvalid msg)))
   \<and> zero_DayTime = \<lparr>hour = 0, minute = 0, second = 0\<rparr>
   \<and> New 24 60 60 = (zero_DayTime, Some (Wrap ErrInvalid ''value of hour is 24''))"
  by (auto simp: New_def zero_DayTime_def Itoa_def utoa_lt100 digit_char_def)

subsection \<open>Rendering\<close>

text \<open>
  Claim C6. String on a nil receiver is "00:00". On a value that satisfies the invariant
  it is the hour and the minute, each zero-padded to two digits, joined by a colon; the
  seconds are left out when the second is 0, and otherwise follow as a colon and the
  zero-padded second. So 1, 2, 3 renders as "01:02:03" and 1, 2, 0 as "01:02".
\<close>

theorem String_spec:
  "String None = ''00:00''
   \<and> (valid_DayTime d \<longrightarrow>
        String (Some d) =
          two_digits (hour d) @ '':'' @ two_digits (minute d) @
          (if second d = 0 then [] else '':'' @ two_digits (second d)))
   \<and> String (Some \<lparr>hour = 1, minute = 2, second = 3\<rparr>) = ''01:02:03''
   \<and> String (Some \<lparr>hour = 1, minute = 2, second = 0\<rparr>) = ''01:02''"
proof (intro conjI impI)
  show "String None = ''00:00''" by (simp add: String_def DefaultTime_def)
next
  assume "valid_DayTime d"
  then show "String (Some d) =
          two_digits (hour d) @ '':'' @ two_digits (minute d) @
          (if second d = 0 then [] else '':'' @ two_digits (second d))"
    by (rule String_valid)
next
  show "String (Some \<lparr>hour = 1, minute = 2, second = 3\<rparr>) = ''01:02:03''"
    by (simp add: String_def pad_def Itoa_def utoa_lt10 digit_char_def)
next
  show "String (Some \<lparr>hour = 1, minute = 2, second = 0\<rparr>) = ''01:02''"
    by (simp add: String_def pad_def Itoa_def utoa_lt10 digit_char_def)
qed

theorem String_spec_witness:
  "valid_DayTime \<lparr>hour = 23, minute = 5, second = 59\<rparr>
   \<and> String (Some \<lparr>hour = 23, minute = 5, second = 59\<rparr>) = ''23:05:59''"
  using String_spec [of "\<lparr>hour = 23, minute = 5, second = 59\<rparr>"]
  by (simp add: valid_DayTime_def two_digits_def digit_char_def)

subsection \<open>Encoders\<close>

text \<open>
  Claim C9. MarshalBinary, MarshalText, MarshalJSON, MarshalCSV and Value each return
  the text of String on their receiver (as bytes, as a string, or as a driver value
  holding the string) and a nil error, for every receiver; on a nil receiver each returns
  "00:00".
\<close>

theorem encode_spec:
  "MarshalBinary t = (String t, None) \<and> MarshalText t = (String t, None)
   \<and> MarshalJSON t = (String t, None) \<and> MarshalCSV t = (String t, None)
   \<and> Value t = (Str (String t), None)
   \<and> MarshalBinary None = (''00:00'', None) \<and> MarshalText None = (''00:00'', None)
   \<and> MarshalJSON None = (''00:00'', None) \<and> MarshalCSV None = (''00:00'', None)
   \<and> Value None = (Str ''00:00'', None)"
  by (simp add: MarshalBinary_def MarshalText_def MarshalJSON_def MarshalCSV_def Value_def
      String_def DefaultTime_def)

text \<open>
  Claim C10. A midnight value (0, 0, 0) renders as "00:00", the text String gives for a
  nil receiver, and so every encoder returns the same for midnight as for nil.
\<close>

theorem midnight_same_as_nil:
  "String (Some \<lparr>hour = 0, minute = 0, second = 0\<rparr>) = ''00:00''
   \<and> String (Some \<lparr>hour = 0, minute = 0, second = 0\<rparr>) = String None
   \<and> MarshalBinary (Some \<lparr>hour = 0, minute = 0, second = 0\<rparr>) = MarshalBinary None
   \<and> MarshalText (Some \<lparr>hour = 0, minute = 0, second = 0\<rparr>) = MarshalText None
   \<and> MarshalJSON (Some \<lparr>hour = 0, minute = 0, second = 0\<rparr>) = MarshalJSON None
   \<and> MarshalCSV (Some \<lparr>hour = 0, minute = 0, second = 0\<rparr>) = MarshalCSV None
   \<and> Value (Some \<lparr>hour = 0, minute = 0, second = 0\<rparr>) = Value None"
  by (simp add: MarshalBinary_def MarshalText_def MarshalJSON_def MarshalCSV_def Value_def
      String_def DefaultTime_def pad_def Itoa_def utoa_lt10 digit_char_def)

subsection \<open>Parsing\<close>

text \<open>
  Claim C3. Parse works on the input with the spaces and tabs, and nothing else, removed
  from both ends. It succeeds only when that text has the shape of two digits, a colon,
  two digits and optionally a colon and two digits more: then its result is that of New
  on the numbers the digit pairs denote, with 0 for missing seconds, so a text of the
  right shape with a field out of range fails as New does ("24:02:03" fails with "value
  of hour is 24"). On any other text it returns the zero triple and \<open>ErrInvalid\<close> wrapped
  with the trimmed text in single quotes. Every error of Parse has \<open>ErrInvalid\<close> as its
  cause and comes with the zero triple. Single-digit fields are refused, and a newline is
  not trimmed.
\<close>

theorem Parse_spec:
  "(\<exists>l r. v = l @ Trim v [CHR '' '', CHR 0x09] @ r
        \<and> set l \<subseteq> {CHR '' '', CHR 0x09} \<and> set r \<subseteq> {CHR '' '', CHR 0x09})
   \<and> (Trim v [CHR '' '', CHR 0x09] \<noteq> [] \<longrightarrow>
        hd (Trim v [CHR '' '', CHR 0x09]) \<notin> {CHR '' '', CHR 0x09}
        \<and> last (Trim v [CHR '' '', CHR 0x09]) \<notin> {CHR '' '', CHR 0x09})
   \<and> Parse v =
       (let w = Trim v [CHR '' '', CHR 0x09]
        in if hhmm_shape w
           then Some (New (field w 0) (field w 3) (if length w = 8 then field w 6 else 0))
           else Some (zero_DayTime,
                      Some (Wrap ErrInvalid (''value '' @ [CHR 0x27] @ w @ [CHR 0x27]))))
   \<and> ((\<exists>d. Parse v = Some (d, None)) \<longrightarrow> hhmm_shape (Trim v [CHR '' '', CHR 0x09]))
   \<and> (\<forall>d err. Parse v = Some (d, Some err) \<longrightarrow> Cause err = ErrInvalid \<and> d = zero_DayTime)
   \<and> Parse ''24:02:03'' = Some (New 24 2 3)
   \<and> New 24 2 3 = (zero_DayTime, Some (Wrap ErrInvalid ''value of hour is 24''))
   \<and> Parse '' 1:2:3 '' =
       Some (zero_DayTime, Some (Wrap ErrInvalid (''value '' @ [CHR 0x27] @ ''1:2:3'' @ [CHR 0x27])))
   \<and> Parse (''01:02'' @ [CHR 0x0A]) =
       Some (zero_DayTime,
             Some (Wrap ErrInvalid (''value '' @ [CHR 0x27] @ ''01:02'' @ [CHR 0x0A] @ [CHR 0x27])))"
proof (intro conjI)
  show "\<exists>l r. v = l @ Trim v [CHR '' '', CHR 0x09] @ r
        \<and> set l \<subseteq> {CHR '' '', CHR 0x09} \<and> set r \<subseteq> {CHR '' '', CHR 0x09}"
    using Trim_decomp[of v "[CHR '' '', CHR 0x09]"] by simp
next
  show "Trim v [CHR '' '', CHR 0x09] \<noteq> [] \<longrightarrow>
        hd (Trim v [CHR '' '', CHR 0x09]) \<notin> {CHR '' '', CHR 0x09}
        \<and> last (Trim v [CHR '' '', CHR 0x09]) \<notin> {CHR '' '', CHR 0x09}"
    using Trim_ends[of v "[CHR '' '', CHR 0x09]"] by simp
next
  show "Parse v =
       (let w = Trim v [CHR '' '', CHR 0x09]
        in if hhmm_shape w
           then Some (New (field w 0) (field w 3) (if length w = 8 then field w 6 else 0))
           else Some (zero_DayTime,
                      Some (Wrap ErrInvalid (''value '' @ [CHR 0x27] @ w @ [CHR 0x27]))))"
    by (rule Parse_closed_form)
next
  show "(\<exists>d. Parse v = Some (d, None)) \<longrightarrow> hhmm_shape (Trim v [CHR '' '', CHR 0x09])"
    by (auto simp: Parse_closed_form Let_def split: if_splits)
next
  show "\<forall>d err. Parse v = Some (d, Some err) \<longrightarrow> Cause err = ErrInvalid \<and> d = zero_DayTime"
    by (auto simp: Parse_closed_form Let_def New_def split: if_splits)
next
  have "Parse ''24:02:03'' = Some (New (digit_val CHR ''2'' * 10 + digit_val CHR ''4'')
      (digit_val CHR ''0'' * 10 + digit_val CHR ''2'') (digit_val CHR ''0'' * 10 + digit_val CHR ''3''))"
    by (rule Parse_long) (simp_all add: is_digit_def)
  then show "Parse ''24:02:03'' = Some (New 24 2 3)"
    by (simp add: digit_val_def)
next
  show "New 24 2 3 = (zero_DayTime, Some (Wrap ErrInvalid ''value of hour is 24''))"
    by (simp add: New_def Itoa_def utoa_lt100 digit_char_def)
next
  show "Parse '' 1:2:3 '' =
       Some (zero_DayTime, Some (Wrap ErrInvalid (''value '' @ [CHR 0x27] @ ''1:2:3'' @ [CHR 0x27])))"
    by (simp add: Parse_closed_form Trim_def TrimLeft_def TrimRight_def hhmm_shape_def)
next
  show "Parse (''01:02'' @ [CHR 0x0A]) =
       Some (zero_DayTime,
             Some (Wrap ErrInvalid (''value '' @ [CHR 0x27] @ ''01:02'' @ [CHR 0x0A] @ [CHR 0x27])))"
    by (simp add: Parse_closed_form Trim_def TrimLeft_def TrimRight_def hhmm_shape_def)
qed

theorem Parse_spec_witness:
  "Trim [CHR '' '', CHR 0x09, CHR ''0'', CHR ''1'', CHR '':'', CHR ''0'', CHR ''2'', CHR 0x09]
        [CHR '' '', CHR 0x09] = ''01:02''
   \<and> hhmm_shape ''01:02''
   \<and> Parse [CHR '' '', CHR 0x09, CHR ''0'', CHR ''1'', CHR '':'', CHR ''0'', CHR ''2'', CHR 0x09]
       = Some (\<lparr>hour = 1, minute = 2, second = 0\<rparr>, None)"
  using Parse_spec [of "[CHR '' '', CHR 0x09, CHR ''0'', CHR ''1'', CHR '':'', CHR ''0'', CHR ''2'', CHR 0x09]"]
  by (simp add: Trim_def TrimLeft_def TrimRight_def hhmm_shape_def is_digit_def field_def
      digit_val_def New_def)

subsection \<open>Round trip\<close>

text \<open>
  Claim C2. For every hour from 0 to 23 and minute and second from 0 to 59, New succeeds,
  and parsing the rendering of its value succeeds with the triple (h, m, 0) when the
  second is 0 and with (h, m, s) otherwise.
\<close>

theorem round_trip:
  assumes "0 \<le> h" "h \<le> 23" "0 \<le> m" "m \<le> 59" "0 \<le> s" "s \<le> 59"
  shows "New h m s = (\<lparr>hour = h, minute = m, second = s\<rparr>, None)
     \<and> Parse (String (Some (fst (New h m s)))) =
         Some (if s = 0 then \<lparr>hour = h, minute = m, second = 0\<rparr>
               else \<lparr>hour = h, minute = m, second = s\<rparr>, None)"
proof -
  let ?d = "\<lparr>hour = h, minute = m, second = s\<rparr>"
  have new: "New h m s = (?d, None)" using assms by (simp add: New_def)
  have "valid_DayTime ?d" using assms by (simp add: valid_DayTime_def)
  then have str: "String (Some ?d) =
      two_digits h @ '':'' @ two_digits m @ (if s = 0 then [] else '':'' @ two_digits s)"
    using String_valid[of ?d] by simp
  obtain a b where h: "two_digits h = [a, b]" "is_digit a" "is_digit b"
    "digit_val a * 10 + digit_val b = h"
    using two_digits_props[of h] assms by auto
  obtain c d where m: "two_digits m = [c, d]" "is_digit c" "is_digit d"
    "digit_val c * 10 + digit_val d = m"
    using two_digits_props[of m] assms by auto
  obtain e f where s: "two_digits s = [e, f]" "is_digit e" "is_digit f"
    "digit_val e * 10 + digit_val f = s"
    using two_digits_props[of s] assms by auto
  have "Parse (String (Some ?d)) = Some (New h m s)"
  proof (cases "s = 0")
    case True
    have "String (Some ?d) = [a, b, CHR '':'', c, d]"
      unfolding str h(1) m(1) using True by simp
    then show ?thesis using Parse_short[OF h(2,3) m(2,3)] h(4) m(4) True by simp
  next
    case False
    have "String (Some ?d) = [a, b, CHR '':'', c, d, CHR '':'', e, f]"
      unfolding str h(1) m(1) s(1) using False by simp
    then show ?thesis using Parse_long[OF h(2,3) m(2,3) s(2,3)] h(4) m(4) s(4) by simp
  qed
  with new show ?thesis by simp
qed

theorem round_trip_witness:
  "(0::int) \<le> 7 \<and> (7::int) \<le> 23 \<and> (0::int) \<le> 30 \<and> (30::int) \<le> 59 \<and> (0::int) \<le> 0 \<and> (0::int) \<le> 59
   \<and> Parse (String (Some (fst (New 7 30 0)))) = Some (\<lparr>hour = 7, minute = 30, second = 0\<rparr>, None)
   \<and> Parse (String (Some (fst (New 23 59 59)))) = Some (\<lparr>hour = 23, minute = 59, second = 59\<rparr>, None)"
  using round_trip [of 7 30 0] round_trip [of 23 59 59] by (simp add: New_def)

subsection \<open>Decoders\<close>

text \<open>
  Claim C5. UnmarshalBinary, UnmarshalText, UnmarshalJSON, UnmarshalCSV and Scan return
  \<open>ErrObjIsNil\<close> on a nil receiver, whatever the input. On a receiver that holds a value,
  Parse always returns; when it returns an error, each decoder returns that error wrapped
  with "parse" and the receiver holds the value it held before; when it returns a value
  and no error, the receiver holds that value afterwards and the decoder returns nil.
\<close>

theorem decode_spec:
  "UnmarshalBinary None x = Some (None, Some ErrObjIsNil)
   \<and> UnmarshalText None x = Some (None, Some ErrObjIsNil)
   \<and> UnmarshalJSON None x = Some (None, Some ErrObjIsNil)
   \<and> UnmarshalCSV None x = Some (None, Some ErrObjIsNil)
   \<and> fst (Scan None src) = Some (None, Some ErrObjIsNil)
   \<and> (\<exists>v e. Parse x = Some (v, e))
   \<and> (\<forall>v err. Parse x = Some (v, Some err) \<longrightarrow>
        UnmarshalBinary (Some d) x = Some (Some d, Some (Wrap err ''parse''))
        \<and> UnmarshalText (Some d) x = Some (Some d, Some (Wrap err ''parse''))
        \<and> UnmarshalJSON (Some d) x = Some (Some d, Some (Wrap err ''parse''))
        \<and> UnmarshalCSV (Some d) x = Some (Some d, Some (Wrap err ''parse''))
        \<and> fst (Scan (Some d) (Bytes x)) = Some (Some d, Some (Wrap err ''parse''))
        \<and> fst (Scan (Some d) (Str x)) = Some (Some d, Some (Wrap err ''parse'')))
   \<and> (\<forall>v. Parse x = Some (v, None) \<longrightarrow>
        UnmarshalBinary (Some d) x = Some (Some v, None)
        \<and> UnmarshalText (Some d) x = Some (Some v, None)
        \<and> UnmarshalJSON (Some d) x = Some (Some v, None)
        \<and> UnmarshalCSV (Some d) x = Some (Some v, None)
        \<and> fst (Scan (Some d) (Bytes x)) = Some (Some v, None)
        \<and> fst (Scan (Some d) (Str x)) = Some (Some v, None))"
proof (intro conjI allI impI)
  show "\<exists>v e. Parse x = Some (v, e)" by (rule Parse_total)
qed (simp_all add: UnmarshalBinary_def UnmarshalText_def UnmarshalJSON_def UnmarshalCSV_def
      Scan_def)

theorem decode_spec_witness:
  "Parse ''24:02:03'' = Some (zero_DayTime, Some (Wrap ErrInvalid ''value of hour is 24''))
   \<and> UnmarshalBinary (Some \<lparr>hour = 1, minute = 2, second = 3\<rparr>) ''24:02:03'' =
       Some (Some \<lparr>hour = 1, minute = 2, second = 3\<rparr>,
             Some (Wrap (Wrap ErrInvalid ''value of hour is 24'') ''parse''))
   \<and> fst (Scan (Some \<lparr>hour = 1, minute = 2, second = 3\<rparr>) (Str ''24:02:03'')) =
       Some (Some \<lparr>hour = 1, minute = 2, second = 3\<rparr>,
             Some (Wrap (Wrap ErrInvalid ''value of hour is 24'') ''parse''))
   \<and> Parse ''01:02:03'' = Some (\<lparr>hour = 1, minute = 2, second = 3\<rparr>, None)
   \<and> UnmarshalCSV (Some zero_DayTime) ''01:02:03'' =
       Some (Some \<lparr>hour = 1, minute = 2, second = 3\<rparr>, None)"
  using decode_spec [of "''24:02:03''" "Str []" "\<lparr>hour = 1, minute = 2, second = 3\<rparr>"]
        decode_spec [of "''01:02:03''" "Str []" zero_DayTime]
        Parse_bad_example Parse_good_example
  by simp

subsection \<open>Scan\<close>

text \<open>
  Claim C7. On a byte sequence Scan has the outcome of UnmarshalBinary, UnmarshalText and
  UnmarshalJSON on those bytes, and on a string the outcome of UnmarshalCSV on it, so
  "01:02:03" as a string and as bytes both give 1, 2, 3. On a value of any other type,
  with a receiver that holds a value, it returns \<open>ErrUnexpected\<close> wrapped with the name of
  the type and the receiver holds what it held before. Besides, Scan prints one line to
  the standard output when the source is a byte sequence and the receiver is not nil,
  and nothing otherwise.
\<close>

theorem Scan_spec:
  "fst (Scan t (Bytes b)) = UnmarshalBinary t b
   \<and> fst (Scan t (Bytes b)) = UnmarshalText t b
   \<and> fst (Scan t (Bytes b)) = UnmarshalJSON t b
   \<and> fst (Scan t (Str s)) = UnmarshalCSV t s
   \<and> fst (Scan t (Str s)) = fst (Scan t (Bytes s))
   \<and> fst (Scan (Some zero_DayTime) (Str ''01:02:03'')) =
       Some (Some \<lparr>hour = 1, minute = 2, second = 3\<rparr>, None)
   \<and> fst (Scan (Some zero_DayTime) (Bytes ''01:02:03'')) =
       Some (Some \<lparr>hour = 1, minute = 2, second = 3\<rparr>, None)
   \<and> fst (Scan (Some d) (Other ty)) =
       Some (Some d, Some (Wrap ErrUnexpected (''type of value '' @ [CHR 0x27] @ ty @ [CHR 0x27])))
   \<and> fst (Scan (Some zero_DayTime) (Other ''map[int]string'')) =
       Some (Some zero_DayTime,
             Some (Wrap ErrUnexpected (''type of value '' @ [CHR 0x27] @ ''map[int]string'' @ [CHR 0x27])))
   \<and> snd (Scan (Some d) (Bytes b)) = ''str(bytes) = '' @ [CHR 0x27] @ b @ [CHR 0x27, CHR 0x0A]
   \<and> snd (Scan t (Str s)) = [] \<and> snd (Scan t (Other ty)) = [] \<and> snd (Scan None src) = []"
proof -
  obtain v e where p: "Parse b = Some (v, e)" using Parse_total by blast
  obtain v' e' where p': "Parse s = Some (v', e')" using Parse_total by blast
  show ?thesis
    using p p' Parse_good_example
    by (cases t; cases e; cases e')
       (simp_all add: Scan_def UnmarshalBinary_def UnmarshalText_def UnmarshalJSON_def
          UnmarshalCSV_def split: any.splits)
qed

subsection \<open>Anchoring\<close>

text \<open>
  Claim C1. For every receiver, nil included, InTheNearFuture returns what its call of
  Time returned when that is not strictly before the moment the method read as now, and
  that time plus exactly 24 hours when it is strictly before; InTheRecentPast returns
  the time unchanged when it is not strictly after now, and the time minus exactly 24
  hours when it is. When the time equals now, neither method moves it. The method reads
  the clock for now first and Time reads it next; when the two readings are the same
  instant, the call of Time returns what Time returns at now.
\<close>

theorem anchoring_spec:
  "fst (InTheNearFuture t clk n) =
     (if unix_nano (fst (Time t clk (Suc n))) < unix_nano (clk n)
      then (fst (Time t clk (Suc n)))
             \<lparr>unix_nano := unix_nano (fst (Time t clk (Suc n))) + 24 * 3600 * 1000000000\<rparr>
      else fst (Time t clk (Suc n)))
   \<and> fst (InTheRecentPast t clk n) =
     (if unix_nano (clk n) < unix_nano (fst (Time t clk (Suc n)))
      then (fst (Time t clk (Suc n)))
             \<lparr>unix_nano := unix_nano (fst (Time t clk (Suc n))) - 24 * 3600 * 1000000000\<rparr>
      else fst (Time t clk (Suc n)))
   \<and> (unix_nano (fst (Time t clk (Suc n))) = unix_nano (clk n) \<longrightarrow>
        fst (InTheNearFuture t clk n) = fst (Time t clk (Suc n))
        \<and> fst (InTheRecentPast t clk n) = fst (Time t clk (Suc n)))
   \<and> (clk (Suc n) = clk n \<longrightarrow> fst (Time t clk (Suc n)) = fst (Time t clk n))"
proof (intro conjI impI)
  show "clk (Suc n) = clk n \<Longrightarrow> fst (Time t clk (Suc n)) = fst (Time t clk n)"
    by (rule fst_Time_cong)
qed (simp_all add: InTheNearFuture_eq InTheRecentPast_eq Before_def After_def Add_def Day_eval)

theorem anchoring_spec_witness:
  "unix_nano (fst (Time (Some \<lparr>hour = 1, minute = 2, second = 3\<rparr>) clock_exact (Suc 0)))
     = unix_nano (clock_exact 0)
   \<and> clock_exact (Suc 0) = clock_exact 0
   \<and> fst (InTheNearFuture (Some \<lparr>hour = 1, minute = 2, second = 3\<rparr>) clock_exact 0)
       = Date 2024 1 1 1 2 3 0 0
   \<and> fst (InTheRecentPast (Some \<lparr>hour = 1, minute = 2, second = 3\<rparr>) clock_exact 0)
       = Date 2024 1 1 1 2 3 0 0
   \<and> fst (Time (Some \<lparr>hour = 1, minute = 2, second = 3\<rparr>) clock_exact 0)
       = Date 2024 1 1 1 2 3 0 0"
  using anchoring_spec [of "Some \<lparr>hour = 1, minute = 2, second = 3\<rparr>" clock_exact 0]
  by (simp add: Time_exact_eval) (simp add: clock_exact_def exact_moment_def)


text \<open>
  Claim C8, as amended. Time reads the clock exactly once and its result depends on the
  receiver and that reading only. InTheNearFuture and InTheRecentPast each read the clock
  exactly twice, first for their own now, then once more inside the call of Time that
  they make; their result depends on the receiver and those two readings only, and on the
  receiver and one instant when the two readings are the same.
\<close>

theorem clock_reads:
  "snd (Time t clk n) = Suc n
   \<and> snd (InTheNearFuture t clk n) = Suc (Suc n)
   \<and> snd (InTheRecentPast t clk n) = Suc (Suc n)
   \<and> (clk n = clk' n' \<longrightarrow> fst (Time t clk n) = fst (Time t clk' n'))
   \<and> (clk n = clk' n' \<and> clk (Suc n) = clk' (Suc n') \<longrightarrow>
        fst (InTheNearFuture t clk n) = fst (InTheNearFuture t clk' n')
        \<and> fst (InTheRecentPast t clk n) = fst (InTheRecentPast t clk' n'))
   \<and> (clk (Suc n) = clk n \<and> clk' (Suc n') = clk' n' \<and> clk n = clk' n' \<longrightarrow>
        fst (InTheNearFuture t clk n) = fst (InTheNearFuture t clk' n')
        \<and> fst (InTheRecentPast t clk n) = fst (InTheRecentPast t clk' n'))"
proof (intro conjI impI)
  show "snd (Time t clk n) = Suc n" by (rule snd_Time)
next
  show "snd (InTheNearFuture t clk n) = Suc (Suc n)" by (simp add: InTheNearFuture_eq)
next
  show "snd (InTheRecentPast t clk n) = Suc (Suc n)" by (simp add: InTheRecentPast_eq)
next
  assume "clk n = clk' n'"
  then show "fst (Time t clk n) = fst (Time t clk' n')" by (rule fst_Time_cong)
next
  assume a: "clk n = clk' n' \<and> clk (Suc n) = clk' (Suc n')"
  then have T: "fst (Time t clk (Suc n)) = fst (Time t clk' (Suc n'))"
    by (intro fst_Time_cong) simp
  show "fst (InTheNearFuture t clk n) = fst (InTheNearFuture t clk' n')"
    using a T by (simp add: InTheNearFuture_eq)
  show "fst (InTheRecentPast t clk n) = fst (InTheRecentPast t clk' n')"
    using a T by (simp add: InTheRecentPast_eq)
next
  assume a: "clk (Suc n) = clk n \<and> clk' (Suc n') = clk' n' \<and> clk n = clk' n'"
  then have T: "fst (Time t clk (Suc n)) = fst (Time t clk' (Suc n'))"
    by (intro fst_Time_cong) simp
  show "fst (InTheNearFuture t clk n) = fst (InTheNearFuture t clk' n')"
    using a T by (simp add: InTheNearFuture_eq)
  show "fst (InTheRecentPast t clk n) = fst (InTheRecentPast t clk' n')"
    using a T by (simp add: InTheRecentPast_eq)
qed

theorem clock_reads_witness:
  "clock_midnight 0 = clock_shifted 5 \<and> clock_midnight (Suc 0) = clock_shifted (Suc 5)
   \<and> fst (InTheNearFuture (Some \<lparr>hour = 23, minute = 59, second = 59\<rparr>) clock_midnight 0)
       = fst (InTheNearFuture (Some \<lparr>hour = 23, minute = 59, second = 59\<rparr>) clock_shifted 5)
   \<and> fst (InTheRecentPast (Some \<lparr>hour = 23, minute = 59, second = 59\<rparr>) clock_midnight 0)
       = fst (InTheRecentPast (Some \<lparr>hour = 23, minute = 59, second = 59\<rparr>) clock_shifted 5)
   \<and> snd (InTheNearFuture (Some \<lparr>hour = 23, minute = 59, second = 59\<rparr>) clock_midnight 0) = 2"
  using clock_reads [of "Some \<lparr>hour = 23, minute = 59, second = 59\<rparr>" clock_midnight 0 clock_shifted 5]
  by (simp add: clock_shifted_def)

text \<open>
  The claim as stated, that each anchoring call reads the clock once and its result is a
  function of the receiver and that one reading, fails: the steady clock and the midnight
  clock agree on the first reading, and for the receiver 23:59:59 InTheNearFuture returns
  2024-01-01 23:59:59 on the one and 2024-01-02 23:59:59 on the other, InTheRecentPast
  returns 2023-12-31 23:59:59 and 2024-01-01 23:59:59, and each has read the clock twice.
\<close>

theorem one_reading_counterexample:
  "clock_steady 0 = clock_midnight 0
   \<and> fst (InTheNearFuture (Some \<lparr>hour = 23, minute = 59, second = 59\<rparr>) clock_steady 0)
       = Date 2024 1 1 23 59 59 0 0
   \<and> fst (InTheNearFuture (Some \<lparr>hour = 23, minute = 59, second = 59\<rparr>) clock_midnight 0)
       = Date 2024 1 2 23 59 59 0 0
   \<and> fst (InTheNearFuture (Some \<lparr>hour = 23, minute = 59, second = 59\<rparr>) clock_steady 0)
       \<noteq> fst (InTheNearFuture (Some \<lparr>hour = 23, minute = 59, second = 59\<rparr>) clock_midnight 0)
   \<and> fst (InTheRecentPast (Some \<lparr>hour = 23, minute = 59, second = 59\<rparr>) clock_steady 0)
       = Date 2023 12 31 23 59 59 0 0
   \<and> fst (InTheRecentPast (Some \<lparr>hour = 23, minute = 59, second = 59\<rparr>) clock_midnight 0)
       = Date 2024 1 1 23 59 59 0 0
   \<and> fst (InTheRecentPast (Some \<lparr>hour = 23, minute = 59, second = 59\<rparr>) clock_steady 0)
       \<noteq> fst (InTheRecentPast (Some \<lparr>hour = 23, minute = 59, second = 59\<rparr>) clock_midnight 0)
   \<and> snd (InTheNearFuture (Some \<lparr>hour = 23, minute = 59, second = 59\<rparr>) clock_midnight 0) = 2
   \<and> snd (InTheRecentPast (Some \<lparr>hour = 23, minute = 59, second = 59\<rparr>) clock_midnight 0) = 2"
proof -
  have d: "Date 2024 1 1 23 59 59 0 0 = \<lparr>unix_nano = 1704153599000000000, zone = 0\<rparr>"
    "Date 2024 1 2 23 59 59 0 0 = \<lparr>unix_nano = 1704239999000000000, zone = 0\<rparr>"
    "Date 2023 12 31 23 59 59 0 0 = \<lparr>unix_nano = 1704067199000000000, zone = 0\<rparr>"
    unfolding Date_def days_from_civil_def Let_def by simp_all
  show ?thesis
    unfolding d
    by (simp add: InTheNearFuture_eq InTheRecentPast_eq Time_steady_eval Time_midnight_eval
        Before_def After_def Add_def Day_eval)
       (simp add: clock_steady_def clock_midnight_def late_evening_eval)
qed

end
